theory Spec2Isabelle
  imports Complex_Main "HOL-Library.Word" "HOL-Library.Sublist"
begin

section \<open>JavaScript strings and values\<close>

text \<open>
  A JavaScript string is a sequence of UTF-16 code units, and \<open>.length\<close> counts code
  units. The model therefore takes a string to be a list of 16-bit words; \<open>js\<close> embeds an
  ASCII literal.
\<close>

type_synonym jstring = "16 word list"

definition js :: "string \<Rightarrow> jstring" where
  "js s = map of_char s"

text \<open>
  Values as they arrive from a request or from \<open>JSON.parse\<close>. A number keeps the decimal
  text it was written with; no function below reads its magnitude.
\<close>

datatype jsvalue =
    JSUndefined
  | JSNull
  | JSBool bool
  | JSNumber jstring
  | JSString jstring
  | JSArray "jsvalue list"
  | JSObject "(jstring \<times> jsvalue) list"

section \<open>AmazonScraper.isValidASIN\<close>

text \<open>
  \<^verbatim>\<open>
  isValidASIN(asin) {
      return typeof asin === 'string' &&
             asin.length === 10 &&
             /^[A-Z0-9]+$/.test(asin);
  }
  \<close>
  The character class \<open>[A-Z0-9]\<close> is the two code-unit ranges 0x41..0x5A and 0x30..0x39.
  The pattern has no flags, so \<open>^\<close> and \<open>$\<close> match only at the two ends of the input, and
  \<open>+\<close> asks for at least one character.
\<close>

definition in_class_AZ09 :: "16 word \<Rightarrow> bool" where
  "in_class_AZ09 c = ((0x41 \<le> c \<and> c \<le> 0x5A) \<or> (0x30 \<le> c \<and> c \<le> 0x39))"

definition test_AZ09_plus :: "jstring \<Rightarrow> bool" where
  "test_AZ09_plus s = (s \<noteq> [] \<and> list_all in_class_AZ09 s)"

fun isValidASIN :: "jsvalue \<Rightarrow> bool" where
  "isValidASIN (JSString asin) = (length asin = 10 \<and> test_AZ09_plus asin)"
| "isValidASIN _ = False"

text \<open>The alphabet of the specification, written out letter by letter.\<close>

definition asin_alphabet :: jstring where
  "asin_alphabet = js ''ABCDEFGHIJKLMNOPQRSTUVWXYZ0123456789''"

section \<open>GeminiOptimizer.calculateOptimizationScore\<close>

text \<open>
  The two arguments of the score calculator. Titles are read with \<open>.length\<close> without a
  guard, so they are strings; every other field is guarded by a truthiness test or by
  \<open>?.\<close>, so it may be absent (\<open>None\<close> stands for \<open>null\<close> and \<open>undefined\<close>).
\<close>

record original_content =
  orig_title :: jstring
  orig_bulletPoints :: "jstring option"
  orig_description :: "jstring option"

record optimized_content =
  opt_title :: jstring
  opt_bulletPoints :: "jstring option"
  opt_description :: "jstring option"
  opt_suggestedKeywords :: "jstring list option"

record score_result =
  score :: int
  factors :: "string list"
  maxScore :: int

text \<open>Truthiness of a possibly absent string: absent and the empty string are falsy.\<close>

definition truthy_string :: "jstring option \<Rightarrow> bool" where
  "truthy_string x = (case x of None \<Rightarrow> False | Some s \<Rightarrow> s \<noteq> [])"

text \<open>\<open>x?.length || 0\<close>: the length, and 0 for an absent string.\<close>

definition length_or_0 :: "jstring option \<Rightarrow> nat" where
  "length_or_0 x = (case x of None \<Rightarrow> 0 | Some s \<Rightarrow> length s)"

text \<open>
  The body runs four guarded blocks in sequence; each block adds to \<open>score\<close> and pushes a
  label on \<open>factors\<close>. The state between the blocks is the pair of both.
\<close>

definition title_block :: "original_content \<Rightarrow> optimized_content \<Rightarrow> int \<times> string list \<Rightarrow> int \<times> string list" where
  "title_block original optimized st =
     (if length (opt_title optimized) > length (orig_title original) \<and> length (opt_title optimized) \<le> 200
      then (fst st + 20, snd st @ [''Enhanced title length''])
      else st)"

definition bullet_block :: "original_content \<Rightarrow> optimized_content \<Rightarrow> int \<times> string list \<Rightarrow> int \<times> string list" where
  "bullet_block original optimized st =
     (if truthy_string (opt_bulletPoints optimized)
         \<and> length_or_0 (opt_bulletPoints optimized) > length_or_0 (orig_bulletPoints original)
      then (fst st + 25, snd st @ [''Improved bullet points''])
      else st)"

definition description_block :: "original_content \<Rightarrow> optimized_content \<Rightarrow> int \<times> string list \<Rightarrow> int \<times> string list" where
  "description_block original optimized st =
     (if truthy_string (opt_description optimized)
         \<and> length_or_0 (opt_description optimized) > length_or_0 (orig_description original)
      then (fst st + 25, snd st @ [''Enhanced description''])
      else st)"

definition keyword_block :: "optimized_content \<Rightarrow> int \<times> string list \<Rightarrow> int \<times> string list" where
  "keyword_block optimized st =
     (case opt_suggestedKeywords optimized of
        None \<Rightarrow> st
      | Some ks \<Rightarrow> if length ks \<ge> 3
                   then (fst st + 30, snd st @ [''Added keyword strategy''])
                   else st)"

definition score_blocks :: "original_content \<Rightarrow> optimized_content \<Rightarrow> int \<times> string list" where
  "score_blocks original optimized =
     keyword_block optimized
       (description_block original optimized
         (bullet_block original optimized
           (title_block original optimized (0, []))))"

definition calculateOptimizationScore :: "original_content \<Rightarrow> optimized_content \<Rightarrow> score_result" where
  "calculateOptimizationScore original optimized =
     (let st = score_blocks original optimized
      in \<lparr> score = min (fst st) 100, factors = snd st, maxScore = 100 \<rparr>)"

text \<open>
  The four rules as the specification words them, each over plain lengths: a generated
  text is longer than the original when it is present and its length exceeds the
  original's, a missing original counting as length 0; a rule's points when it triggers,
  and its label.
\<close>

definition title_rule :: "original_content \<Rightarrow> optimized_content \<Rightarrow> bool" where
  "title_rule original optimized =
     (length (orig_title original) < length (opt_title optimized) \<and> length (opt_title optimized) \<le> 200)"

definition longer_than_original :: "jstring option \<Rightarrow> jstring option \<Rightarrow> bool" where
  "longer_than_original original_text generated_text =
     (case generated_text of
        None \<Rightarrow> False
      | Some g \<Rightarrow>
          (case original_text of
             None \<Rightarrow> 0 < length g
           | Some orig \<Rightarrow> length orig < length g))"

definition bullet_rule :: "original_content \<Rightarrow> optimized_content \<Rightarrow> bool" where
  "bullet_rule original optimized =
     longer_than_original (orig_bulletPoints original) (opt_bulletPoints optimized)"

definition description_rule :: "original_content \<Rightarrow> optimized_content \<Rightarrow> bool" where
  "description_rule original optimized =
     longer_than_original (orig_description original) (opt_description optimized)"

definition keyword_rule :: "optimized_content \<Rightarrow> bool" where
  "keyword_rule optimized =
     (case opt_suggestedKeywords optimized of None \<Rightarrow> False | Some ks \<Rightarrow> 3 \<le> length ks)"

definition points_if :: "bool \<Rightarrow> int \<Rightarrow> int" where
  "points_if b p = (if b then p else 0)"

definition label_if :: "bool \<Rightarrow> string \<Rightarrow> string list" where
  "label_if b l = (if b then [l] else [])"

text \<open>The point value the specification attaches to each label.\<close>

definition factor_points :: "string \<Rightarrow> int" where
  "factor_points l =
     (if l = ''Enhanced title length'' then 20
      else if l = ''Improved bullet points'' then 25
      else if l = ''Enhanced description'' then 25
      else if l = ''Added keyword strategy'' then 30
      else 0)"

definition all_factor_labels :: "string list" where
  "all_factor_labels =
     [''Enhanced title length'', ''Improved bullet points'',
      ''Enhanced description'', ''Added keyword strategy'']"

text \<open>
  The example of the specification: original title "X", empty original bullets and
  description; and the same generated record with a title of 201 characters.
\<close>

definition ex_orig :: original_content where
  "ex_orig = \<lparr> orig_title = js ''X'', orig_bulletPoints = Some [], orig_description = Some [] \<rparr>"

definition ex_opt :: optimized_content where
  "ex_opt = \<lparr> opt_title = js ''X enhanced'', opt_bulletPoints = Some (js ''new bullet''),
       opt_description = Some (js ''new description''),
       opt_suggestedKeywords = Some [js ''a'', js ''b'', js ''c''] \<rparr>"

definition ex_opt_long :: optimized_content where
  "ex_opt_long = ex_opt \<lparr> opt_title := replicate 201 0x41 \<rparr>"

section \<open>String helpers of the language\<close>

text \<open>
  \<open>String.prototype.trim\<close> removes the code units of WhiteSpace and LineTerminator from
  both ends.
\<close>

definition is_js_space :: "16 word \<Rightarrow> bool" where
  "is_js_space c =
     (c \<in> set [0x09, 0x0A, 0x0B, 0x0C, 0x0D, 0x20, 0xA0, 0x1680, 0x2028, 0x2029, 0x202F,
                0x205F, 0x3000, 0xFEFF]
      \<or> (0x2000 \<le> c \<and> c \<le> 0x200A))"

definition trim :: "jstring \<Rightarrow> jstring" where
  "trim s = rev (dropWhile is_js_space (rev (dropWhile is_js_space s)))"

text \<open>\<open>s.includes(sub)\<close>: \<open>sub\<close> occurs in \<open>s\<close> as a contiguous run.\<close>

fun js_includes :: "jstring \<Rightarrow> jstring \<Rightarrow> bool" where
  "js_includes [] sub = (sub = [])"
| "js_includes (c # cs) sub = (take (length sub) (c # cs) = sub \<or> js_includes cs sub)"

text \<open>\<open>Array.prototype.join\<close> on an array of strings.\<close>

fun join :: "jstring \<Rightarrow> jstring list \<Rightarrow> jstring" where
  "join sep [] = []"
| "join sep [x] = x"
| "join sep (x # y # ys) = x @ sep @ join sep (y # ys)"

section \<open>AmazonScraper.extractBulletPoints\<close>

text \<open>
  \<^verbatim>\<open>
  extractBulletPoints($) {
      const bulletPoints = [];
      $('#feature-bullets ul li span').each((i, el) => {
          const text = $(el).text().trim();
          if (text && !text.includes('Make sure') && text.length > 10) {
              bulletPoints.push(text);
          }
      });
      if (bulletPoints.length === 0) {
          $('.a-unordered-list .a-list-item').each((i, el) => { ...the same body... });
      }
      return bulletPoints.length > 0 ? bulletPoints.join('\n* ') : null;
  }
  \<close>
  (the separator's middle character is the bullet U+2022). The document enters the function
  only through the two selections, so a page is the texts of the elements each selector
  matches, in document order.
\<close>

record page =
  feature_bullet_spans :: "jstring list"
  list_items :: "jstring list"

definition bullet_separator :: jstring where
  "bullet_separator = [0x0A, 0x2022, 0x20]"

definition push_usable :: "jstring list \<Rightarrow> jstring \<Rightarrow> jstring list" where
  "push_usable bulletPoints el =
     (let text = trim el
      in if text \<noteq> [] \<and> \<not> js_includes text (js ''Make sure'') \<and> length text > 10
         then bulletPoints @ [text] else bulletPoints)"

definition extractBulletPoints :: "page \<Rightarrow> jstring option" where
  "extractBulletPoints p =
     (let bulletPoints = foldl push_usable [] (feature_bullet_spans p);
          bulletPoints = (if length bulletPoints = 0
                          then foldl push_usable bulletPoints (list_items p)
                          else bulletPoints)
      in if length bulletPoints > 0 then Some (join bullet_separator bulletPoints) else None)"

text \<open>
  The specification's filter: the trimmed texts that do not contain the disclaimer fragment
  (the nine characters "Make sure", written as code units) and are longer than 10
  characters.
\<close>

definition disclaimer_fragment :: jstring where
  "disclaimer_fragment = [0x4D, 0x61, 0x6B, 0x65, 0x20, 0x73, 0x75, 0x72, 0x65]"

definition usable_items :: "jstring list \<Rightarrow> jstring list" where
  "usable_items els = filter (\<lambda>t. \<not> sublist disclaimer_fragment t \<and> 10 < length t) (map trim els)"


definition ex_page :: page where
  "ex_page = \<lparr> feature_bullet_spans = [js ''  Make sure this fits by entering your model  '', js ''short''],
                list_items = [js '' Durable steel frame '', js ''tiny'', js ''Machine washable cover''] \<rparr>"

section \<open>JSON.parse\<close>

text \<open>
  The keyword parser calls \<open>JSON.parse\<close> and acts on whether it throws. The model is a
  recursive-descent parser of the JSON grammar (ECMA-404): white space is space, tab, line
  feed and carriage return; a value is an object, an array, a string, a number or one of
  the three literals; a string may not contain an unescaped quote, backslash or control
  character, and knows the escapes quote, backslash, slash, b, f, n, r, t and u with four
  hexadecimal digits; a number is an optional minus, an integer part without a leading
  zero, an optional fraction and an optional exponent. Nothing may follow the value but
  white space. An object keeps its members in source order.

  The recursion through arrays and objects runs on a fuel counter; \<open>json_parse\<close> hands
  out twice the length of the text plus two, and \<open>json_parse_fuel\<close> below shows that
  this is never used up, so \<open>None\<close> always stands for the \<open>SyntaxError\<close> the builtin
  throws.
\<close>

datatype 'a parsed = Parsed 'a jstring | SyntaxError | OutOfFuel

definition is_json_ws :: "16 word \<Rightarrow> bool" where
  "is_json_ws c = (c = 0x20 \<or> c = 0x09 \<or> c = 0x0A \<or> c = 0x0D)"

definition skip_ws :: "jstring \<Rightarrow> jstring" where
  "skip_ws cs = dropWhile is_json_ws cs"

definition is_digit :: "16 word \<Rightarrow> bool" where
  "is_digit c = (0x30 \<le> c \<and> c \<le> 0x39)"

definition hex_value :: "16 word \<Rightarrow> 16 word option" where
  "hex_value c =
     (if 0x30 \<le> c \<and> c \<le> 0x39 then Some (c - 0x30)
      else if 0x41 \<le> c \<and> c \<le> 0x46 then Some (c - 0x41 + 10)
      else if 0x61 \<le> c \<and> c \<le> 0x66 then Some (c - 0x61 + 10)
      else None)"

definition hex4 :: "16 word \<Rightarrow> 16 word \<Rightarrow> 16 word \<Rightarrow> 16 word \<Rightarrow> 16 word option" where
  "hex4 a b c d =
     (case (hex_value a, hex_value b, hex_value c, hex_value d) of
        (Some x, Some y, Some z, Some w) \<Rightarrow> Some (((x * 16 + y) * 16 + z) * 16 + w)
      | _ \<Rightarrow> None)"

definition escape_char :: "16 word \<Rightarrow> 16 word option" where
  "escape_char e =
     (if e = 0x22 then Some 0x22
      else if e = 0x5C then Some 0x5C
      else if e = 0x2F then Some 0x2F
      else if e = 0x62 then Some 0x08
      else if e = 0x66 then Some 0x0C
      else if e = 0x6E then Some 0x0A
      else if e = 0x72 then Some 0x0D
      else if e = 0x74 then Some 0x09
      else None)"

fun string_chars :: "jstring \<Rightarrow> jstring \<Rightarrow> jstring parsed" where
  "string_chars [] acc = SyntaxError"
| "string_chars (c # cs) acc =
     (if c = 0x22 then Parsed (rev acc) cs
      else if c = 0x5C then
        (case cs of
           [] \<Rightarrow> SyntaxError
         | e # cs' \<Rightarrow>
             if e = 0x75 then
               (case cs' of
                  h1 # h2 # h3 # h4 # cs'' \<Rightarrow>
                    (case hex4 h1 h2 h3 h4 of
                       Some u \<Rightarrow> string_chars cs'' (u # acc)
                     | None \<Rightarrow> SyntaxError)
                | _ \<Rightarrow> SyntaxError)
             else
               (case escape_char e of
                  Some u \<Rightarrow> string_chars cs' (u # acc)
                | None \<Rightarrow> SyntaxError))
      else if c < 0x20 then SyntaxError
      else string_chars cs (c # acc))"

definition frac_p :: "jstring \<Rightarrow> (jstring \<times> jstring) option" where
  "frac_p cs =
     (case cs of
        [] \<Rightarrow> Some ([], [])
      | c # r \<Rightarrow>
          if c = 0x2E then
            (if takeWhile is_digit r = [] then None
             else Some (c # takeWhile is_digit r, dropWhile is_digit r))
          else Some ([], cs))"

definition exp_sign :: "jstring \<Rightarrow> jstring \<times> jstring" where
  "exp_sign r =
     (case r of
        [] \<Rightarrow> ([], r)
      | s # r' \<Rightarrow> if s = 0x2B \<or> s = 0x2D then ([s], r') else ([], r))"

definition exp_p :: "jstring \<Rightarrow> (jstring \<times> jstring) option" where
  "exp_p cs =
     (case cs of
        [] \<Rightarrow> Some ([], [])
      | c # r \<Rightarrow>
          if c = 0x65 \<or> c = 0x45 then
            (let sg = fst (exp_sign r); r' = snd (exp_sign r)
             in if takeWhile is_digit r' = [] then None
                else Some (c # sg @ takeWhile is_digit r', dropWhile is_digit r'))
          else Some ([], cs))"

definition int_p :: "jstring \<Rightarrow> (jstring \<times> jstring) option" where
  "int_p cs =
     (case cs of
        [] \<Rightarrow> None
      | d # r \<Rightarrow>
          if \<not> is_digit d then None
          else if d = 0x30 then Some ([d], r)
          else Some (d # takeWhile is_digit r, dropWhile is_digit r))"

definition number_p :: "jstring \<Rightarrow> jsvalue parsed" where
  "number_p cs =
     (let sg = (case cs of [] \<Rightarrow> [] | c # r \<Rightarrow> if c = 0x2D then [c] else []);
          r0 = drop (length sg) cs
      in case int_p r0 of
           None \<Rightarrow> SyntaxError
         | Some (ip, r1) \<Rightarrow>
             (case frac_p r1 of
                None \<Rightarrow> SyntaxError
              | Some (fp, r2) \<Rightarrow>
                  (case exp_p r2 of
                     None \<Rightarrow> SyntaxError
                   | Some (ep, r3) \<Rightarrow> Parsed (JSNumber (sg @ ip @ fp @ ep)) r3)))"

definition literal_p :: "jstring \<Rightarrow> jsvalue parsed" where
  "literal_p cs =
     (if take 4 cs = js ''null'' then Parsed JSNull (drop 4 cs)
      else if take 4 cs = js ''true'' then Parsed (JSBool True) (drop 4 cs)
      else if take 5 cs = js ''false'' then Parsed (JSBool False) (drop 5 cs)
      else SyntaxError)"

fun value_p :: "nat \<Rightarrow> jstring \<Rightarrow> jsvalue parsed"
  and elements_p :: "nat \<Rightarrow> jstring \<Rightarrow> jsvalue list \<Rightarrow> jsvalue parsed"
  and members_p :: "nat \<Rightarrow> jstring \<Rightarrow> (jstring \<times> jsvalue) list \<Rightarrow> jsvalue parsed"
where
  "value_p 0 cs = OutOfFuel"
| "value_p (Suc n) cs =
     (case skip_ws cs of
        [] \<Rightarrow> SyntaxError
      | c # r \<Rightarrow>
          if c = 0x5B then
            (case skip_ws r of
               [] \<Rightarrow> SyntaxError
             | c' # r' \<Rightarrow> if c' = 0x5D then Parsed (JSArray []) r' else elements_p n r [])
          else if c = 0x7B then
            (case skip_ws r of
               [] \<Rightarrow> SyntaxError
             | c' # r' \<Rightarrow> if c' = 0x7D then Parsed (JSObject []) r' else members_p n r [])
          else if c = 0x22 then
            (case string_chars r [] of
               Parsed s r' \<Rightarrow> Parsed (JSString s) r'
             | SyntaxError \<Rightarrow> SyntaxError
             | OutOfFuel \<Rightarrow> OutOfFuel)
          else if c = 0x2D \<or> is_digit c then number_p (c # r)
          else literal_p (c # r))"
| "elements_p 0 cs acc = OutOfFuel"
| "elements_p (Suc n) cs acc =
     (case value_p n cs of
        Parsed v r \<Rightarrow>
          (case skip_ws r of
             [] \<Rightarrow> SyntaxError
           | c # r' \<Rightarrow>
               if c = 0x2C then elements_p n r' (v # acc)
               else if c = 0x5D then Parsed (JSArray (rev (v # acc))) r'
               else SyntaxError)
      | SyntaxError \<Rightarrow> SyntaxError
      | OutOfFuel \<Rightarrow> OutOfFuel)"
| "members_p 0 cs acc = OutOfFuel"
| "members_p (Suc n) cs acc =
     (case skip_ws cs of
        [] \<Rightarrow> SyntaxError
      | q # r \<Rightarrow>
          if q \<noteq> 0x22 then SyntaxError
          else
            (case string_chars r [] of
               Parsed k r1 \<Rightarrow>
                 (case skip_ws r1 of
                    [] \<Rightarrow> SyntaxError
                  | col # r2 \<Rightarrow>
                      if col \<noteq> 0x3A then SyntaxError
                      else
                        (case value_p n r2 of
                           Parsed v r3 \<Rightarrow>
                             (case skip_ws r3 of
                                [] \<Rightarrow> SyntaxError
                              | c # r4 \<Rightarrow>
                                  if c = 0x2C then members_p n r4 ((k, v) # acc)
                                  else if c = 0x7D then Parsed (JSObject (rev ((k, v) # acc))) r4
                                  else SyntaxError)
                         | SyntaxError \<Rightarrow> SyntaxError
                         | OutOfFuel \<Rightarrow> OutOfFuel))
             | SyntaxError \<Rightarrow> SyntaxError
             | OutOfFuel \<Rightarrow> OutOfFuel))"

definition json_parse :: "jstring \<Rightarrow> jsvalue option" where
  "json_parse s =
     (case value_p (2 * length s + 2) s of
        Parsed v r \<Rightarrow> if skip_ws r = [] then Some v else None
      | SyntaxError \<Rightarrow> None
      | OutOfFuel \<Rightarrow> None)"


text \<open>
  Enough fuel for a text: none of the three mutually recursive functions runs out, and
  each leaves less text than it was given.
\<close>

definition fuel_ok :: "nat \<Rightarrow> bool" where
  "fuel_ok n \<longleftrightarrow>
     (\<forall>cs. 2 * length cs < n \<longrightarrow>
        value_p n cs \<noteq> OutOfFuel \<and> (\<forall>v r. value_p n cs = Parsed v r \<longrightarrow> length r < length cs))
   \<and> (\<forall>cs acc. 2 * length cs + 1 < n \<longrightarrow>
        elements_p n cs acc \<noteq> OutOfFuel
        \<and> (\<forall>v r. elements_p n cs acc = Parsed v r \<longrightarrow> length r < length cs))
   \<and> (\<forall>cs acc. 2 * length cs + 1 < n \<longrightarrow>
        members_p n cs acc \<noteq> OutOfFuel
        \<and> (\<forall>v r. members_p n cs acc = Parsed v r \<longrightarrow> length r < length cs))"

section \<open>The keyword recovery parser\<close>

text \<open>
  What the column \<open>suggested_keywords\<close> (declared \<open>JSON\<close>) yields for a row: \<open>null\<close>, a
  string, or, when the driver has already decoded a stored array, an array of strings.
  \<open>payload_truthy\<close> is the truthiness test of the language (an array is truthy even when
  empty) and \<open>payload_String\<close> is \<open>String(x)\<close>, which joins an array with commas.
\<close>

datatype payload = PNull | PText jstring | PList "jstring list"

fun payload_truthy :: "payload \<Rightarrow> bool" where
  "payload_truthy PNull = False"
| "payload_truthy (PText s) = (s \<noteq> [])"
| "payload_truthy (PList ks) = True"

fun payload_String :: "payload \<Rightarrow> jstring" where
  "payload_String PNull = js ''null''"
| "payload_String (PText s) = s"
| "payload_String (PList ks) = join (js '','') ks"

text \<open>
  \<open>s.startsWith(p)\<close>, \<open>s.endsWith(p)\<close>, \<open>s.slice(1, -1)\<close>, \<open>s.split(',')\<close> (one more
  piece than there are separators, so the empty string gives one empty piece) and
  \<open>k.replace(/['"]/g, '')\<close>.
\<close>

definition startsWith :: "jstring \<Rightarrow> jstring \<Rightarrow> bool" where
  "startsWith s p = (take (length p) s = p)"

definition endsWith :: "jstring \<Rightarrow> jstring \<Rightarrow> bool" where
  "endsWith s p = (length p \<le> length s \<and> drop (length s - length p) s = p)"

definition slice_1_minus1 :: "jstring \<Rightarrow> jstring" where
  "slice_1_minus1 s = take (length s - 1 - 1) (drop 1 s)"

fun split_on :: "16 word \<Rightarrow> jstring \<Rightarrow> jstring list" where
  "split_on d [] = [[]]"
| "split_on d (c # cs) =
     (if c = d then [] # split_on d cs
      else (case split_on d cs of
              [] \<Rightarrow> [[c]]
            | p # ps \<Rightarrow> (c # p) # ps))"

definition remove_quotes :: "jstring \<Rightarrow> jstring" where
  "remove_quotes k = filter (\<lambda>c. c \<noteq> 0x27 \<and> c \<noteq> 0x22) k"

definition strings_value :: "jstring list \<Rightarrow> jsvalue" where
  "strings_value ks = JSArray (map JSString ks)"

text \<open>
  POST /api/optimize/:asin, the cached branch:
  \<^verbatim>\<open>
  let suggestedKeywords = [];
  try {
      const keywordsString = opt.suggested_keywords ? String(opt.suggested_keywords) : '[]';
      suggestedKeywords = JSON.parse(keywordsString);
  } catch (e) {
      const keywordsString = opt.suggested_keywords ? String(opt.suggested_keywords) : '';
      if (keywordsString) {
          if (keywordsString.startsWith('[') && keywordsString.endsWith(']')) {
              try {
                  suggestedKeywords = JSON.parse(keywordsString);
              } catch (e2) {
                  suggestedKeywords = keywordsString.slice(1, -1).split(',')
                      .map(k => k.trim().replace(/['"]/g, ''))
                      .filter(k => k.length > 0);
              }
          } else if (keywordsString.includes(',')) {
              suggestedKeywords = keywordsString.split(',').map(k => k.trim())
                  .filter(k => k.length > 0);
          } else if (keywordsString.trim()) {
              suggestedKeywords = [keywordsString.trim()];
          }
      }
  }
  \<close>
  The result is whatever \<open>suggestedKeywords\<close> holds at the end.
\<close>

definition parseKeywords :: "payload \<Rightarrow> jsvalue" where
  "parseKeywords suggested_keywords =
     (case json_parse (if payload_truthy suggested_keywords
                       then payload_String suggested_keywords else js ''[]'') of
        Some v \<Rightarrow> v
      | None \<Rightarrow>
          (let keywordsString = (if payload_truthy suggested_keywords
                                 then payload_String suggested_keywords else [])
           in if keywordsString \<noteq> [] then
                (if startsWith keywordsString (js ''['') \<and> endsWith keywordsString (js '']'') then
                   (case json_parse keywordsString of
                      Some v \<Rightarrow> v
                    | None \<Rightarrow>
                        strings_value
                          (filter (\<lambda>k. length k > 0)
                            (map (\<lambda>k. remove_quotes (trim k))
                              (split_on 0x2C (slice_1_minus1 keywordsString)))))
                 else if js_includes keywordsString (js '','') then
                   strings_value
                     (filter (\<lambda>k. length k > 0) (map trim (split_on 0x2C keywordsString)))
                 else if trim keywordsString \<noteq> [] then
                   strings_value [trim keywordsString]
                 else strings_value [])
              else strings_value []))"









section \<open>The record store and the world around a request\<close>

text \<open>
  The relational store is an external collaborator. A table is the list of its rows in
  insertion order. Times are milliseconds since the epoch; one request reads one clock
  value \<open>now\<close>, which is also the store's \<open>NOW()\<close> and \<open>CURRENT_TIMESTAMP\<close>. The
  store's comparison of identifiers and keywords in a \<open>WHERE\<close> clause or a unique key is
  taken to be equality of strings.
\<close>

record listing =
  l_title :: jstring
  l_bulletPoints :: "jstring option"
  l_description :: "jstring option"
  l_imageUrl :: jsvalue
  l_price :: jsvalue
  l_availability :: jsvalue
  l_rating :: jsvalue
  l_reviewCount :: jsvalue

record product_row =
  p_id :: nat
  p_asin :: jstring
  p_listing :: listing
  p_updated_at :: int

record optimization_row =
  o_id :: nat
  o_product_id :: nat
  o_asin :: jstring
  o_optimized_title :: jstring
  o_optimized_bullet_points :: "jstring option"
  o_optimized_description :: "jstring option"
  o_suggested_keywords :: payload
  o_optimization_score :: int
  o_gemini_model :: string
  o_created_at :: int

text \<open>What a caller sends with a rating: see the feedback route below.\<close>

datatype rating_arg = RatingNumber rat | RatingOther jsvalue

datatype feedback_arg = FeedbackFalsy | FeedbackTruthy jsvalue

record feedback_request =
  fr_feedback :: feedback_arg
  fr_rating :: rating_arg
  fr_comments :: jsvalue

record history_row =
  h_asin :: jstring
  h_optimization_id :: nat
  h_action_type :: string
  h_user_feedback :: "feedback_request option"
  h_created_at :: int

record keyword_row =
  k_asin :: jstring
  k_keyword :: jstring
  k_source :: string
  k_updated_at :: int

text \<open>
  Calls that leave the process, recorded in the order they are made: a call of
  \<open>scraper.fetchProductDetails\<close> and a call of \<open>optimizer.optimizeProduct\<close> (which
  issues the four generative calls).
\<close>

datatype effect = SiteFetch jstring | Generation jstring

record world =
  products :: "product_row list"
  next_product_id :: nat
  optimizations :: "optimization_row list"
  next_optimization_id :: nat
  optimization_history :: "history_row list"
  keyword_tracking :: "keyword_row list"
  effects :: "effect list"

text \<open>The statements the handlers send through \<open>executeQuery\<close>.\<close>

datatype stmt =
    SelectProduct jstring
  | UpsertProduct jstring
  | SelectRecentOptimization jstring
  | InsertOptimization jstring
  | InsertHistory jstring nat string
  | UpsertKeyword jstring jstring
  | SelectOptimization nat

text \<open>What the scraper hands back, and what the generative engine hands back.\<close>

record scraped =
  s_asin :: jstring
  s_listing :: listing
  s_category :: jsvalue
  s_brand :: jsvalue

record generated =
  g_title :: jstring
  g_bulletPoints :: jstring
  g_description :: jstring
  g_suggestedKeywords :: "jstring list"

record product_input =
  pi_asin :: jstring
  pi_title :: jstring
  pi_bulletPoints :: "jstring option"
  pi_description :: "jstring option"

text \<open>
  Everything a handler cannot decide by itself: the clock; the outcome of the site fetch
  (\<open>Inl\<close> the message of the error thrown); the outcome of the four generative calls run
  under \<open>Promise.all\<close> (\<open>Inl\<close> the message of the call that rejects first); for each
  statement, whether the store throws for a reason of its own (\<open>Some\<close> the message); and
  whether the store runs in strict SQL mode (the default of MySQL 8) or not.
\<close>

record env =
  now :: int
  scrape :: "jstring \<Rightarrow> jstring + scraped"
  ai :: "product_input \<Rightarrow> jstring + generated"
  db_error :: "stmt \<Rightarrow> jstring option"
  strict_sql :: bool

text \<open>A response is a JSON body with status 200, or a status with an error text and message.\<close>

datatype 'b http = Json 'b | Failure nat jstring "jstring option"

section \<open>GET /api/products/:asin\<close>









section \<open>POST /api/optimize/:asin\<close>

record optimization_result =
  r_asin :: jstring
  r_original :: original_content
  r_optimized :: optimized_content
  r_modelUsed :: string
  r_requestCount :: nat

text \<open>
  \<open>GeminiOptimizer.optimizeProduct\<close>: the four calls, the assembled result, and the
  rethrow with the prefix. Elapsed time and the completion timestamp of the metadata are
  left out.
\<close>

definition optimizeProduct :: "env \<Rightarrow> product_input \<Rightarrow> jstring + optimization_result" where
  "optimizeProduct e productData =
     (case ai e productData of
        Inl message \<Rightarrow> Inl (js ''AI optimization failed: '' @ message)
      | Inr g \<Rightarrow>
          Inr \<lparr> r_asin = pi_asin productData,
                r_original = \<lparr> orig_title = pi_title productData,
                               orig_bulletPoints = pi_bulletPoints productData,
                               orig_description = pi_description productData \<rparr>,
                r_optimized = \<lparr> opt_title = g_title g,
                                opt_bulletPoints = Some (g_bulletPoints g),
                                opt_description = Some (g_description g),
                                opt_suggestedKeywords = Some (g_suggestedKeywords g) \<rparr>,
                r_modelUsed = ''gemini-2.0-flash-exp'',
                r_requestCount = 4 \<rparr>)"

record optimize_body =
  ob_asin :: jstring
  ob_original :: original_content
  ob_title :: jstring
  ob_bulletPoints :: "jstring option"
  ob_description :: "jstring option"
  ob_suggestedKeywords :: jsvalue
  ob_optimizationScore :: int
  ob_scoreFactors :: "string list option"
  ob_source :: string






definition result_keywords :: "optimization_result \<Rightarrow> jstring list" where
  "result_keywords optimizationResult =
     (case opt_suggestedKeywords (r_optimized optimizationResult) of None \<Rightarrow> [] | Some ks \<Rightarrow> ks)"

definition fresh_optimize_body :: "jstring \<Rightarrow> optimization_result \<Rightarrow> score_result \<Rightarrow> optimize_body" where
  "fresh_optimize_body asin optimizationResult scoreResult =
     \<lparr> ob_asin = asin, ob_original = r_original optimizationResult,
       ob_title = opt_title (r_optimized optimizationResult),
       ob_bulletPoints = opt_bulletPoints (r_optimized optimizationResult),
       ob_description = opt_description (r_optimized optimizationResult),
       ob_suggestedKeywords = strings_value (result_keywords optimizationResult),
       ob_optimizationScore = score scoreResult, ob_scoreFactors = Some (factors scoreResult),
       ob_source = ''fresh'' \<rparr>"

text \<open>The \<open>catch\<close> block of the route.\<close>

definition optimize_catch :: "jstring \<Rightarrow> optimize_body http" where
  "optimize_catch message =
     (if js_includes message (js ''API'') then
        Failure 503 (js ''AI service unavailable'')
          (Some (js ''Gemini AI service is temporarily unavailable. Please try again later.''))
      else Failure 500 (js ''Optimization failed'') (Some message))"

definition insert_optimization :: "int \<Rightarrow> product_row \<Rightarrow> jstring \<Rightarrow> optimization_result \<Rightarrow> score_result \<Rightarrow> world \<Rightarrow> world" where
  "insert_optimization t product asin optimizationResult scoreResult w =
     w \<lparr> optimizations := optimizations w @
           [\<lparr> o_id = next_optimization_id w, o_product_id = p_id product, o_asin = asin,
              o_optimized_title = opt_title (r_optimized optimizationResult),
              o_optimized_bullet_points = opt_bulletPoints (r_optimized optimizationResult),
              o_optimized_description = opt_description (r_optimized optimizationResult),
              o_suggested_keywords = PList (result_keywords optimizationResult),
              o_optimization_score = score scoreResult,
              o_gemini_model = r_modelUsed optimizationResult,
              o_created_at = t \<rparr>],
         next_optimization_id := Suc (next_optimization_id w) \<rparr>"

definition insert_history :: "int \<Rightarrow> jstring \<Rightarrow> nat \<Rightarrow> string \<Rightarrow> feedback_request option \<Rightarrow> world \<Rightarrow> world" where
  "insert_history t asin optimization_id action_type user_feedback w =
     w \<lparr> optimization_history := optimization_history w @
           [\<lparr> h_asin = asin, h_optimization_id = optimization_id, h_action_type = action_type,
              h_user_feedback = user_feedback, h_created_at = t \<rparr>] \<rparr>"

text \<open>
  The schema of the repository declares the column as
  \<^verbatim>\<open>action_type ENUM('created', 'updated', 'viewed') DEFAULT 'created'\<close>.
  An insert of a value outside the enumeration is refused in strict SQL mode (the statement
  throws and no row is written) and is stored as the empty string otherwise.
  \<open>execute_insert_history\<close> is the statement as the store executes it.
\<close>

definition action_type_enum :: "string list" where
  "action_type_enum = [''created'', ''updated'', ''viewed'']"

definition data_truncated :: jstring where
  "data_truncated =
     js ''Data truncated for column '' @ [0x27] @ js ''action_type'' @ [0x27] @ js '' at row 1''"

definition execute_insert_history ::
  "env \<Rightarrow> jstring \<Rightarrow> nat \<Rightarrow> string \<Rightarrow> feedback_request option \<Rightarrow> world \<Rightarrow> jstring + world" where
  "execute_insert_history e asin optimization_id action_type user_feedback w =
     (case db_error e (InsertHistory asin optimization_id action_type) of
        Some message \<Rightarrow> Inl message
      | None \<Rightarrow>
          if action_type \<in> set action_type_enum then
            Inr (insert_history (now e) asin optimization_id action_type user_feedback w)
          else if strict_sql e then Inl data_truncated
          else Inr (insert_history (now e) asin optimization_id [] user_feedback w))"

text \<open>
  \<open>INSERT INTO keyword_tracking ... ON DUPLICATE KEY UPDATE updated_at = CURRENT_TIMESTAMP\<close>
  on the unique key (asin, keyword).
\<close>

definition upsert_keyword :: "int \<Rightarrow> jstring \<Rightarrow> jstring \<Rightarrow> world \<Rightarrow> world" where
  "upsert_keyword t asin keyword w =
     (if \<exists>k \<in> set (keyword_tracking w). k_asin k = asin \<and> k_keyword k = keyword then
        w \<lparr> keyword_tracking :=
              map (\<lambda>k. if k_asin k = asin \<and> k_keyword k = keyword
                        then k \<lparr> k_updated_at := t \<rparr> else k) (keyword_tracking w) \<rparr>
      else
        w \<lparr> keyword_tracking := keyword_tracking w @
              [\<lparr> k_asin = asin, k_keyword = keyword, k_source = ''suggested'',
                 k_updated_at = t \<rparr>] \<rparr>)"

text \<open>
  The loop over the suggested keywords: each upsert is awaited in turn, and the first one
  that throws ends the loop with its error; the earlier upserts stay.
\<close>

fun store_keywords :: "env \<Rightarrow> jstring \<Rightarrow> jstring list \<Rightarrow> world \<Rightarrow> jstring option \<times> world" where
  "store_keywords e asin [] w = (None, w)"
| "store_keywords e asin (keyword # rest) w =
     (case db_error e (UpsertKeyword asin keyword) of
        Some message \<Rightarrow> (Some message, w)
      | None \<Rightarrow> store_keywords e asin rest (upsert_keyword (now e) asin keyword w))"

text \<open>
  The part of the route after the generation: score, insert of the OptimizationRecord,
  insert of the 'created' ActionLogEntry, keyword loop, response. All of it stands in the
  route's one \<open>try\<close> block, so the first statement that throws sends the request to the
  \<open>catch\<close> block with the writes made so far left in place (no transaction is opened).
\<close>

definition store_generated :: "env \<Rightarrow> jstring \<Rightarrow> product_row \<Rightarrow> optimization_result \<Rightarrow> world \<Rightarrow> optimize_body http \<times> world" where
  "store_generated e asin product optimizationResult w1 =
     (let scoreResult = calculateOptimizationScore (r_original optimizationResult)
                          (r_optimized optimizationResult)
      in case db_error e (InsertOptimization asin) of
           Some message \<Rightarrow> (optimize_catch message, w1)
         | None \<Rightarrow>
             (let insertId = next_optimization_id w1;
                  w2 = insert_optimization (now e) product asin optimizationResult scoreResult w1
              in case execute_insert_history e asin insertId ''created'' None w2 of
                   Inl message \<Rightarrow> (optimize_catch message, w2)
                 | Inr w3 \<Rightarrow>
                     (case store_keywords e asin (result_keywords optimizationResult) w3 of
                        (Some message, w4) \<Rightarrow> (optimize_catch message, w4)
                      | (None, w4) \<Rightarrow>
                          (Json (fresh_optimize_body asin optimizationResult scoreResult), w4))))"

definition generate_and_store :: "env \<Rightarrow> jstring \<Rightarrow> product_row \<Rightarrow> world \<Rightarrow> optimize_body http \<times> world" where
  "generate_and_store e asin product w =
     (let productData = \<lparr> pi_asin = p_asin product, pi_title = l_title (p_listing product),
                          pi_bulletPoints = l_bulletPoints (p_listing product),
                          pi_description = l_description (p_listing product) \<rparr>;
          w1 = w \<lparr> effects := effects w @ [Generation (p_asin product)] \<rparr>
      in case optimizeProduct e productData of
           Inl message \<Rightarrow> (optimize_catch message, w1)
         | Inr optimizationResult \<Rightarrow> store_generated e asin product optimizationResult w1)"


section \<open>POST /api/history/:optimizationId/feedback\<close>






text \<open>
  A store with one product and one optimization of it, an environment whose calls all
  succeed, and four moments: 23 and 25 hours after the product was updated at time 0, and
  59 and 61 minutes after an optimization was created at time 0.
\<close>

definition ex_listing :: listing where
  "ex_listing = \<lparr> l_title = js ''Stainless steel bottle'', l_bulletPoints = None,
       l_description = None, l_imageUrl = JSNull, l_price = JSNull,
       l_availability = JSString (js ''Unknown''), l_rating = JSNull, l_reviewCount = JSNull \<rparr>"




definition ex_generated :: generated where
  "ex_generated = \<lparr> g_title = js ''Insulated stainless steel bottle, 1 litre'',
       g_bulletPoints = js ''Keeps drinks cold'', g_description = js ''A bottle.'',
       g_suggestedKeywords = [js ''bottle'', js ''steel'', js ''insulated''] \<rparr>"

definition ex_env :: "int \<Rightarrow> env" where
  "ex_env t = \<lparr> now = t,
       scrape = (\<lambda>asin. Inr \<lparr> s_asin = asin, s_listing = ex_listing, s_category = JSNull,
                               s_brand = JSNull \<rparr>),
       ai = (\<lambda>productData. Inr ex_generated),
       db_error = (\<lambda>statement. None),
       strict_sql = True \<rparr>"






section \<open>GeminiOptimizer.optimizeMultipleProducts\<close>

text \<open>
  \<^verbatim>\<open>
  async optimizeMultipleProducts(products, options = {}) {
      const { maxConcurrent = 1, delayBetweenBatches = 5000 } = options;  // 5 seconds between products
      const results = [];
      const errors = [];
      for (let i = 0; i < products.length; i++) {
          try {
              const result = await this.optimizeProduct(products[i]);
              results.push(result);
              // Add delay between products
              if (i < products.length - 1) {
                  await new Promise(resolve => setTimeout(resolve, delayBetweenBatches));
              }
          } catch (error) {
              errors.push({ asin: products[i].asin, error: error.message, timestamp: ... });
          }
      }
      return { successful: results, failed: errors, totalRequests: this.requestCount,
               summary: { total: products.length, successful: results.length,
                          failed: errors.length } };
  }
  \<close>
  The i-th iteration meets its own environment \<open>envs i\<close>. Besides the returned object the
  model keeps the trace of what the loop does in order: a call of \<open>optimizeProduct\<close> for an
  identifier, and a wait of so many milliseconds. \<open>totalRequests\<close>, the engine's running
  counter, is left out of the returned object.
\<close>

datatype batch_event = OptimizeCall jstring | Wait nat

record error_result =
  er_asin :: jstring
  er_error :: jstring
  er_timestamp :: int

record batch_result =
  successful :: "optimization_result list"
  failed :: "error_result list"
  summary_total :: nat
  summary_successful :: nat
  summary_failed :: nat

function batch_loop ::
  "(nat \<Rightarrow> env) \<Rightarrow> nat \<Rightarrow> product_input list \<Rightarrow> nat
     \<Rightarrow> optimization_result list \<times> error_result list \<times> batch_event list
     \<Rightarrow> optimization_result list \<times> error_result list \<times> batch_event list" where
  "batch_loop envs delayBetweenBatches prods i (results, errors, trace) =
     (if i < length prods then
        (case optimizeProduct (envs i) (prods ! i) of
           Inr result \<Rightarrow>
             batch_loop envs delayBetweenBatches prods (i + 1)
               (results @ [result], errors,
                trace @ [OptimizeCall (pi_asin (prods ! i))]
                  @ (if i < length prods - 1 then [Wait delayBetweenBatches] else []))
         | Inl message \<Rightarrow>
             batch_loop envs delayBetweenBatches prods (i + 1)
               (results,
                errors @ [\<lparr> er_asin = pi_asin (prods ! i), er_error = message,
                             er_timestamp = now (envs i) \<rparr>],
                trace @ [OptimizeCall (pi_asin (prods ! i))]))
      else (results, errors, trace))"
  by pat_completeness auto
termination
  by (relation "measure (\<lambda>(envs, delayBetweenBatches, prods, i, st). length prods - i)") auto

definition optimizeMultipleProducts ::
  "(nat \<Rightarrow> env) \<Rightarrow> product_input list \<Rightarrow> nat option \<Rightarrow> batch_result \<times> batch_event list" where
  "optimizeMultipleProducts envs prods delay_option =
     (let delayBetweenBatches = (case delay_option of None \<Rightarrow> 5000 | Some d \<Rightarrow> d);
          final = batch_loop envs delayBetweenBatches prods 0 ([], [], [])
      in (\<lparr> successful = fst final, failed = fst (snd final),
              summary_total = length prods,
              summary_successful = length (fst final),
              summary_failed = length (fst (snd final)) \<rparr>,
          snd (snd final)))"

text \<open>
  The claim's delay between records: in the trace, every call but the last is followed by
  a wait before the next call.
\<close>

fun delay_between_calls :: "batch_event list \<Rightarrow> bool" where
  "delay_between_calls (OptimizeCall a # OptimizeCall b # rest) = False"
| "delay_between_calls (ev # rest) = delay_between_calls rest"
| "delay_between_calls [] = True"

text \<open>Product records by identifier, and environments in which the generation fails for chosen iterations.\<close>

definition ex_input :: "string \<Rightarrow> product_input" where
  "ex_input a = \<lparr> pi_asin = js a, pi_title = js ''Stainless steel bottle'',
       pi_bulletPoints = None, pi_description = None \<rparr>"

definition ex_envs_failing :: "nat list \<Rightarrow> nat \<Rightarrow> env" where
  "ex_envs_failing bad i =
     (ex_env (int i * 10000))
       \<lparr> ai := (\<lambda>productData. if i \<in> set bad
                                then Inl (js ''Keyword generation failed: quota exceeded'')
                                else Inr ex_generated) \<rparr>"

section \<open>GeminiOptimizer.rateLimitCheck under Promise.all\<close>

text \<open>
  \<^verbatim>\<open>
  async rateLimitCheck() {
      const now = Date.now();
      if (now - this.lastRequestTime < this.minRequestInterval) {
          const waitTime = this.minRequestInterval - (now - this.lastRequestTime);
          await new Promise(resolve => setTimeout(resolve, waitTime));
      }
      this.lastRequestTime = Date.now();
      this.requestCount++;
  }
  \<close>
  The function has one suspension point. Up to it, it reads the clock and decides whether
  to wait and how long (\<open>rateLimitCheck_wait\<close>); after it, at whatever time it is resumed,
  it stamps the engine (\<open>rateLimitCheck_finish\<close>). When it does not wait, both parts run in
  one go.
\<close>

record engine =
  lastRequestTime :: int
  requestCount :: nat

definition minRequestInterval :: int where
  "minRequestInterval = 1000"

definition new_engine :: engine where
  "new_engine = \<lparr> lastRequestTime = 0, requestCount = 0 \<rparr>"

definition rateLimitCheck_wait :: "int \<Rightarrow> engine \<Rightarrow> int option" where
  "rateLimitCheck_wait t eng =
     (if t - lastRequestTime eng < minRequestInterval
      then Some (minRequestInterval - (t - lastRequestTime eng))
      else None)"

definition rateLimitCheck_finish :: "int \<Rightarrow> engine \<Rightarrow> engine" where
  "rateLimitCheck_finish t eng =
     eng \<lparr> lastRequestTime := t, requestCount := requestCount eng + 1 \<rparr>"

text \<open>
  \<open>optimizeProduct\<close> starts the four calls inside the array literal handed to
  \<open>Promise.all\<close>:
  \<^verbatim>\<open>
  // Run optimizations sequentially to respect rate limits
  const [...] = await Promise.all([
      this.optimizeTitle(productData), this.optimizeBulletPoints(productData),
      this.optimizeDescription(productData), this.generateKeywords(productData) ]);
  \<close>
  Each call begins with \<open>await this.rateLimitCheck()\<close> and dispatches its request
  (\<open>generateContent\<close>) when that returns. An async function runs synchronously up to its
  first suspension, so the four first parts run back to back, in array order, before any
  timer can fire. The schedule modelled: the clock reads \<open>t0\<close> during those four first
  parts, and a timer fires when it is due, timers due at the same time in the order they
  were set. A state holds the engine, the pending timers and the dispatches made so far.
\<close>

datatype gen_call = OptimizeTitle | OptimizeBulletPoints | OptimizeDescription | GenerateKeywords

record loop_state =
  ls_engine :: engine
  ls_timers :: "(int \<times> gen_call) list"
  ls_dispatched :: "(gen_call \<times> int) list"

definition start_call :: "int \<Rightarrow> loop_state \<Rightarrow> gen_call \<Rightarrow> loop_state" where
  "start_call t s c =
     (case rateLimitCheck_wait t (ls_engine s) of
        None \<Rightarrow> s \<lparr> ls_engine := rateLimitCheck_finish t (ls_engine s),
                     ls_dispatched := ls_dispatched s @ [(c, t)] \<rparr>
      | Some waitTime \<Rightarrow> s \<lparr> ls_timers := ls_timers s @ [(t + waitTime, c)] \<rparr>)"

definition fire_timer :: "loop_state \<Rightarrow> int \<times> gen_call \<Rightarrow> loop_state" where
  "fire_timer s timer =
     s \<lparr> ls_engine := rateLimitCheck_finish (fst timer) (ls_engine s),
         ls_dispatched := ls_dispatched s @ [(snd timer, fst timer)] \<rparr>"

definition promise_all_calls :: "int \<Rightarrow> engine \<Rightarrow> loop_state" where
  "promise_all_calls t0 eng =
     (let started = foldl (start_call t0)
                      \<lparr> ls_engine = eng, ls_timers = [], ls_dispatched = [] \<rparr>
                      [OptimizeTitle, OptimizeBulletPoints, OptimizeDescription, GenerateKeywords]
      in foldl fire_timer (started \<lparr> ls_timers := [] \<rparr>) (sort_key fst (ls_timers started)))"

text \<open>The claim: no two dispatches are closer together than the minimum interval.\<close>

fun min_interval_kept :: "int list \<Rightarrow> bool" where
  "min_interval_kept [] = True"
| "min_interval_kept (t # ts) =
     (list_all (\<lambda>u. minRequestInterval \<le> abs (u - t)) ts \<and> min_interval_kept ts)"

section \<open>Properties of the identifier validator\<close>

lemma in_class_AZ09_alphabet: "in_class_AZ09 c \<longleftrightarrow> c \<in> set asin_alphabet"
proof -
  define ns :: "nat list" where "ns = [65..<91] @ [48..<58]"
  have set_ns: "set ns = {65..<91} \<union> {48..<58}"
    unfolding ns_def by (simp only: set_append set_upt)
  have "in_class_AZ09 c \<longleftrightarrow> unat c \<in> set ns"
    unfolding set_ns by (auto simp: in_class_AZ09_def word_le_nat_alt)
  also have "\<dots> \<longleftrightarrow> c \<in> set (map of_nat ns)"
  proof
    assume "unat c \<in> set ns"
    then have "of_nat (unat c) \<in> (of_nat ` set ns :: 16 word set)"
      by (rule imageI)
    then show "c \<in> set (map of_nat ns)"
      by simp
  next
    assume "c \<in> set (map of_nat ns)"
    then obtain n where n: "n \<in> set ns" and c: "c = of_nat n"
      by auto
    from n have "n < 2 ^ 16" unfolding set_ns by auto
    then have "unat (of_nat n :: 16 word) = n"
      by (simp add: unat_of_nat)
    with n c show "unat c \<in> set ns" by simp
  qed
  also have "map of_nat ns = asin_alphabet"
    by (simp add: ns_def asin_alphabet_def js_def upt_conv_Cons)
  finally show ?thesis .
qed

text \<open>
  C9. The validator answers true exactly for a string value of exactly 10 code units, each
  of them one of the 36 characters A..Z, 0..9; every other value (another length, a
  character outside the alphabet, the empty string, a value that is not a string) is
  answered false. The function is a pure predicate: it returns no state and changes none.
\<close>

theorem isValidASIN_iff:
  "isValidASIN v \<longleftrightarrow> (\<exists>s. v = JSString s \<and> length s = 10 \<and> set s \<subseteq> set asin_alphabet)"
proof (cases v)
  case (JSString s)
  have "list_all in_class_AZ09 s \<longleftrightarrow> set s \<subseteq> set asin_alphabet"
    by (auto simp: list_all_iff in_class_AZ09_alphabet)
  moreover have "length s = 10 \<Longrightarrow> s \<noteq> []" by auto
  ultimately show ?thesis using JSString
    by (auto simp: test_AZ09_plus_def)
qed simp_all

section \<open>Properties of the score calculator\<close>

lemma truthy_longer:
  "(truthy_string g \<and> length_or_0 o' < length_or_0 g) \<longleftrightarrow> longer_than_original o' g"
  by (cases g; cases o') (auto simp: truthy_string_def length_or_0_def longer_than_original_def)

lemma score_blocks_eq:
  "score_blocks original optimized =
     (points_if (title_rule original optimized) 20
        + points_if (bullet_rule original optimized) 25
        + points_if (description_rule original optimized) 25
        + points_if (keyword_rule optimized) 30,
      label_if (title_rule original optimized) ''Enhanced title length''
        @ label_if (bullet_rule original optimized) ''Improved bullet points''
        @ label_if (description_rule original optimized) ''Enhanced description''
        @ label_if (keyword_rule optimized) ''Added keyword strategy'')"
  unfolding score_blocks_def title_block_def bullet_block_def description_block_def
    keyword_block_def truthy_longer
  by (simp add: points_if_def label_if_def title_rule_def bullet_rule_def description_rule_def
      keyword_rule_def split: option.split)

lemma score_example:
  "calculateOptimizationScore ex_orig ex_opt =
     \<lparr> score = 100, factors = all_factor_labels, maxScore = 100 \<rparr>"
  by (simp add: calculateOptimizationScore_def score_blocks_def title_block_def bullet_block_def
      description_block_def keyword_block_def truthy_string_def length_or_0_def ex_orig_def
      ex_opt_def js_def all_factor_labels_def)

text \<open>
  C2. For every pair (original, generated) the score is the minimum of 100 and the sum of
  20 (generated title longer than the original one and at most 200 characters), 25
  (generated bullets longer than the original ones, absent counting as length 0), 25
  (the same for the description) and 30 (at least three generated keywords); the factors
  are the labels of the triggered rules in this order; the score lies between 0 and 100;
  and a generated title of more than 200 characters never earns the title factor. The
  specification's example (original title "X", empty original bullets and description;
  generated title "X enhanced", new bullets, new description, three keywords) scores 100
  with all four factors.
\<close>

theorem calculateOptimizationScore_spec:
  "score (calculateOptimizationScore original optimized) =
     min (points_if (title_rule original optimized) 20
          + points_if (bullet_rule original optimized) 25
          + points_if (description_rule original optimized) 25
          + points_if (keyword_rule optimized) 30) 100
   \<and> factors (calculateOptimizationScore original optimized) =
       label_if (title_rule original optimized) ''Enhanced title length''
        @ label_if (bullet_rule original optimized) ''Improved bullet points''
        @ label_if (description_rule original optimized) ''Enhanced description''
        @ label_if (keyword_rule optimized) ''Added keyword strategy''
   \<and> 0 \<le> score (calculateOptimizationScore original optimized)
   \<and> score (calculateOptimizationScore original optimized) \<le> 100
   \<and> (200 < length (opt_title optimized) \<longrightarrow>
        ''Enhanced title length'' \<notin> set (factors (calculateOptimizationScore original optimized))
        \<and> score (calculateOptimizationScore original optimized) \<le> 80)
   \<and> calculateOptimizationScore ex_orig ex_opt =
       \<lparr> score = 100,
         factors = [''Enhanced title length'', ''Improved bullet points'',
                    ''Enhanced description'', ''Added keyword strategy''],
         maxScore = 100 \<rparr>"
proof -
  have le: "points_if b p \<le> p" if "0 \<le> p" for b p
    using that by (simp add: points_if_def)
  have long: "\<not> title_rule original optimized" if "200 < length (opt_title optimized)"
    using that by (simp add: title_rule_def)
  have notin: "''Enhanced title length'' \<notin> set (label_if b ''Improved bullet points''
        @ label_if c ''Enhanced description'' @ label_if d ''Added keyword strategy'')" for b c d
    by (simp add: label_if_def)
  have general: "score (calculateOptimizationScore original optimized) =
     min (points_if (title_rule original optimized) 20
          + points_if (bullet_rule original optimized) 25
          + points_if (description_rule original optimized) 25
          + points_if (keyword_rule optimized) 30) 100
   \<and> factors (calculateOptimizationScore original optimized) =
       label_if (title_rule original optimized) ''Enhanced title length''
        @ label_if (bullet_rule original optimized) ''Improved bullet points''
        @ label_if (description_rule original optimized) ''Enhanced description''
        @ label_if (keyword_rule optimized) ''Added keyword strategy''
   \<and> 0 \<le> score (calculateOptimizationScore original optimized)
   \<and> score (calculateOptimizationScore original optimized) \<le> 100
   \<and> (200 < length (opt_title optimized) \<longrightarrow>
        ''Enhanced title length'' \<notin> set (factors (calculateOptimizationScore original optimized))
        \<and> score (calculateOptimizationScore original optimized) \<le> 80)"
    unfolding calculateOptimizationScore_def Let_def score_blocks_eq
    apply (simp del: set_append)
    apply (intro conjI impI)
    subgoal by (simp add: points_if_def)
    subgoal using long notin by (simp add: label_if_def)
    subgoal using long le[of 25] le[of 30] by (simp add: points_if_def)
    done
  have "calculateOptimizationScore ex_orig ex_opt =
       \<lparr> score = 100,
         factors = [''Enhanced title length'', ''Improved bullet points'',
                    ''Enhanced description'', ''Added keyword strategy''],
         maxScore = 100 \<rparr>"
    using score_example by (simp add: all_factor_labels_def)
  with general show ?thesis by blast
qed

theorem calculateOptimizationScore_spec_witness:
  "200 < length (opt_title ex_opt_long)
   \<and> ''Enhanced title length'' \<notin> set (factors (calculateOptimizationScore ex_orig ex_opt_long))
   \<and> score (calculateOptimizationScore ex_orig ex_opt_long) = 80
   \<and> factors (calculateOptimizationScore ex_orig ex_opt_long) =
       [''Improved bullet points'', ''Enhanced description'', ''Added keyword strategy'']"
proof -
  note T = calculateOptimizationScore_spec [of ex_orig ex_opt_long]
  have h: "200 < length (opt_title ex_opt_long)"
    by (simp add: ex_opt_long_def)
  have rules: "\<not> title_rule ex_orig ex_opt_long" "bullet_rule ex_orig ex_opt_long"
    "description_rule ex_orig ex_opt_long" "keyword_rule ex_opt_long"
    by (simp_all add: title_rule_def bullet_rule_def description_rule_def keyword_rule_def
        longer_than_original_def ex_orig_def ex_opt_long_def ex_opt_def js_def)
  from T h
  have notin: "''Enhanced title length'' \<notin> set (factors (calculateOptimizationScore ex_orig ex_opt_long))"
    by blast
  from T have "score (calculateOptimizationScore ex_orig ex_opt_long) =
     min (points_if (title_rule ex_orig ex_opt_long) 20
          + points_if (bullet_rule ex_orig ex_opt_long) 25
          + points_if (description_rule ex_orig ex_opt_long) 25
          + points_if (keyword_rule ex_opt_long) 30) 100"
    by blast
  with rules have sc: "score (calculateOptimizationScore ex_orig ex_opt_long) = 80"
    by (simp add: points_if_def)
  from T have "factors (calculateOptimizationScore ex_orig ex_opt_long) =
       label_if (title_rule ex_orig ex_opt_long) ''Enhanced title length''
        @ label_if (bullet_rule ex_orig ex_opt_long) ''Improved bullet points''
        @ label_if (description_rule ex_orig ex_opt_long) ''Enhanced description''
        @ label_if (keyword_rule ex_opt_long) ''Added keyword strategy''"
    by blast
  with rules have fa: "factors (calculateOptimizationScore ex_orig ex_opt_long) =
       [''Improved bullet points'', ''Enhanced description'', ''Added keyword strategy'']"
    by (simp add: label_if_def)
  from h notin sc fa show ?thesis by blast
qed

text \<open>
  C10. The score is exactly the sum of the point values of the labels in the returned
  factors; the sum before the cap is at most 100, so the cap never changes it; and the
  score is 100 exactly when all four labels are among the factors.
\<close>

theorem score_eq_sum_of_factor_points:
  "score (calculateOptimizationScore original optimized) =
     sum_list (map factor_points (factors (calculateOptimizationScore original optimized)))
   \<and> fst (score_blocks original optimized) \<le> 100
   \<and> score (calculateOptimizationScore original optimized) = fst (score_blocks original optimized)
   \<and> (score (calculateOptimizationScore original optimized) = 100
        \<longleftrightarrow> set all_factor_labels \<subseteq> set (factors (calculateOptimizationScore original optimized)))"
  unfolding calculateOptimizationScore_def Let_def score_blocks_eq
  by (simp add: points_if_def label_if_def factor_points_def all_factor_labels_def)

section \<open>Properties of bullet extraction\<close>

lemma includes_sublist: "js_includes s sub \<longleftrightarrow> sublist sub s"
proof (induction s)
  case Nil
  then show ?case by auto
next
  case (Cons c cs)
  have "take (length sub) (c # cs) = sub \<longleftrightarrow> prefix sub (c # cs)"
    by (metis append_eq_conv_conj prefix_def)
  with Cons show ?case
    by (auto simp: sublist_Cons_right)
qed

lemma make_sure_fragment: "js ''Make sure'' = disclaimer_fragment"
  by (simp add: js_def disclaimer_fragment_def)

lemma foldl_push_usable: "foldl push_usable acc els = acc @ usable_items els"
proof (induction els arbitrary: acc)
  case Nil
  then show ?case by (simp add: usable_items_def)
next
  case (Cons e es)
  have "10 < length t \<Longrightarrow> t \<noteq> []" for t :: jstring by auto
  then show ?case
    using Cons
    by (auto simp: push_usable_def usable_items_def Let_def includes_sublist make_sure_fragment)
qed

lemma join_eq: "xs \<noteq> [] \<Longrightarrow> join sep xs = hd xs @ concat (map (\<lambda>t. sep @ t) (tl xs))"
  by (induction sep xs rule: join.induct) auto

lemma usable_items_long: "t \<in> set (usable_items els) \<Longrightarrow> 10 < length t"
  by (auto simp: usable_items_def)

text \<open>
  C7. Bullet extraction keeps, of the trimmed item texts of the primary selection, those
  that do not contain the disclaimer fragment and exceed the length threshold of 10; it
  turns to the secondary selection, with the same filter, only when the primary one keeps
  nothing; the kept items are joined by newline, bullet, space; and when nothing is kept
  the result is null, never an empty string.
\<close>

theorem extractBulletPoints_spec:
  "extractBulletPoints p =
     (let items = (if usable_items (feature_bullet_spans p) = []
                   then usable_items (list_items p)
                   else usable_items (feature_bullet_spans p))
      in if items = [] then None
         else Some (hd items @ concat (map (\<lambda>t. [0x0A, 0x2022, 0x20] @ t) (tl items))))
   \<and> extractBulletPoints p \<noteq> Some []"
proof -
  define items where "items = (if usable_items (feature_bullet_spans p) = []
                   then usable_items (list_items p)
                   else usable_items (feature_bullet_spans p))"
  have code: "extractBulletPoints p = (if items = [] then None else Some (join bullet_separator items))"
    by (auto simp: extractBulletPoints_def Let_def foldl_push_usable items_def)
  have long: "10 < length (hd items)" if "items \<noteq> []"
  proof -
    from that have "hd items \<in> set items" by simp
    moreover have "\<forall>t \<in> set items. 10 < length t"
      unfolding items_def using usable_items_long by simp
    ultimately show ?thesis by blast
  qed
  have "extractBulletPoints p \<noteq> Some []"
    using long by (auto simp: code join_eq)
  moreover have "extractBulletPoints p = (if items = [] then None
         else Some (hd items @ concat (map (\<lambda>t. [0x0A, 0x2022, 0x20] @ t) (tl items))))"
    by (simp add: code join_eq bullet_separator_def)
  ultimately show ?thesis
    unfolding items_def Let_def by blast
qed

lemma extractBulletPoints_example:
  "extractBulletPoints ex_page = Some (js ''Durable steel frame'' @ [0x0A, 0x2022, 0x20] @ js ''Machine washable cover'')"
  by (simp add: extractBulletPoints_def ex_page_def push_usable_def js_def trim_def is_js_space_def bullet_separator_def)

section \<open>Properties of the JSON parser\<close>

lemma skip_ws_Cons: "skip_ws cs = c # r \<Longrightarrow> length r < length cs"
proof -
  assume a: "skip_ws cs = c # r"
  have "length (skip_ws cs) \<le> length cs"
    unfolding skip_ws_def by (rule length_dropWhile_le)
  with a show ?thesis by simp
qed

lemma string_chars_shorter: "string_chars cs acc = Parsed s r \<Longrightarrow> length r < length cs"
proof (induction cs acc arbitrary: s r rule: string_chars.induct)
  case (1 acc)
  then show ?case by simp
next
  case (2 c cs acc)
  show ?case
  proof (cases "c = 0x22")
    case True
    with "2.prems" show ?thesis by simp
  next
    case nq: False
    show ?thesis
    proof (cases "c = 0x5C")
      case False
      with nq "2.prems" have "string_chars cs (c # acc) = Parsed s r"
        by (simp split: if_splits)
      moreover from False nq "2.prems" have "\<not> c < 0x20"
        by (auto split: if_splits)
      ultimately have "length r < length cs"
        using "2.IH"(3) [OF nq False] by blast
      then show ?thesis by simp
    next
      case bs: True
      show ?thesis
      proof (cases cs)
        case Nil
        with bs "2.prems" show ?thesis by simp
      next
        case (Cons e cs')
        show ?thesis
        proof (cases "e = 0x75")
          case False
          with nq bs Cons "2.prems" obtain u where u: "escape_char e = Some u"
            and p: "string_chars cs' (u # acc) = Parsed s r"
            by (auto split: option.splits)
          from "2.IH"(2) [OF nq bs Cons False u p] Cons show ?thesis by simp
        next
          case True
          with nq bs Cons "2.prems" obtain h1 h2 h3 h4 cs'' u where
            c: "cs' = h1 # h2 # h3 # h4 # cs''" and u: "hex4 h1 h2 h3 h4 = Some u"
            and p: "string_chars cs'' (u # acc) = Parsed s r"
            by (auto split: list.splits option.splits)
          have "length r < length cs''"
            using "2.IH"(1) nq bs Cons True c u p by blast
          with Cons c show ?thesis by simp
        qed
      qed
    qed
  qed
qed

lemma string_chars_fuel: "string_chars cs acc \<noteq> OutOfFuel"
proof (induction cs acc rule: string_chars.induct)
  case (1 acc)
  then show ?case by simp
next
  case (2 c cs acc)
  show ?case
  proof (cases "c = 0x22")
    case True
    then show ?thesis by simp
  next
    case nq: False
    show ?thesis
    proof (cases "c = 0x5C")
      case False
      with nq "2.IH"(3) show ?thesis by simp
    next
      case bs: True
      show ?thesis
      proof (cases cs)
        case Nil
        with bs show ?thesis by simp
      next
        case (Cons e cs')
        show ?thesis
        proof (cases "e = 0x75")
          case False
          have "string_chars cs' (u # acc) \<noteq> OutOfFuel" if "escape_char e = Some u" for u
            using "2.IH"(2) [OF nq bs Cons False that] .
          with nq bs Cons False show ?thesis
            by (simp split: option.splits)
        next
          case True
          have "string_chars cs'' (u # acc) \<noteq> OutOfFuel"
            if "cs' = h1 # h2 # h3 # h4 # cs''" "hex4 h1 h2 h3 h4 = Some u" for h1 h2 h3 h4 cs'' u
            using "2.IH"(1) nq bs Cons True that by blast
          then have "(case cs' of
                  h1 # h2 # h3 # h4 # cs'' \<Rightarrow>
                    (case hex4 h1 h2 h3 h4 of
                       Some u \<Rightarrow> string_chars cs'' (u # acc)
                     | None \<Rightarrow> SyntaxError)
                | _ \<Rightarrow> SyntaxError) \<noteq> OutOfFuel"
            by (simp split: list.splits option.splits)
          with nq bs Cons True show ?thesis
            by simp
        qed
      qed
    qed
  qed
qed

lemma frac_p_le: "frac_p cs = Some (fp, r) \<Longrightarrow> length r \<le> length cs"
  using length_dropWhile_le [of is_digit "tl cs"]
  by (auto simp: frac_p_def split: list.splits if_splits)

lemma exp_sign_le: "length (snd (exp_sign r)) \<le> length r"
  by (auto simp: exp_sign_def split: list.splits)

lemma exp_p_le: "exp_p cs = Some (ep, r) \<Longrightarrow> length r \<le> length cs"
proof (cases cs)
  case Nil
  then show "exp_p cs = Some (ep, r) \<Longrightarrow> length r \<le> length cs"
    by (simp add: exp_p_def)
next
  case (Cons c r0)
  assume a: "exp_p cs = Some (ep, r)"
  have "length (dropWhile is_digit (snd (exp_sign r0))) \<le> length r0"
    using length_dropWhile_le [of is_digit "snd (exp_sign r0)"] exp_sign_le [of r0] by linarith
  with a Cons show ?thesis
    by (auto simp: exp_p_def Let_def split: if_splits)
qed

lemma int_p_less: "int_p cs = Some (ip, r) \<Longrightarrow> length r < length cs"
  using length_dropWhile_le [of is_digit "tl cs"]
  by (auto simp: int_p_def split: list.splits if_splits)

lemma number_p_shorter: "number_p cs = Parsed v r \<Longrightarrow> length r < length cs"
proof -
  assume a: "number_p cs = Parsed v r"
  define sg where "sg = (case cs of [] \<Rightarrow> [] | c # r \<Rightarrow> if c = 0x2D then [c] else [])"
  from a obtain ip r1 fp r2 ep where
    i: "int_p (drop (length sg) cs) = Some (ip, r1)" and f: "frac_p r1 = Some (fp, r2)"
    and e: "exp_p r2 = Some (ep, r)"
    by (auto simp: number_p_def Let_def sg_def split: option.splits)
  from int_p_less [OF i] frac_p_le [OF f] exp_p_le [OF e] show ?thesis
    by simp
qed

lemma number_p_fuel: "number_p cs \<noteq> OutOfFuel"
  by (auto simp: number_p_def Let_def split: option.splits)

lemma literal_p_shorter: "literal_p cs = Parsed v r \<Longrightarrow> length r < length cs"
proof -
  assume a: "literal_p cs = Parsed v r"
  have "cs \<noteq> []"
    using a by (auto simp: literal_p_def js_def)
  with a show ?thesis
    by (auto simp: literal_p_def split: if_splits)
qed

lemma literal_p_fuel: "literal_p cs \<noteq> OutOfFuel"
  by (simp add: literal_p_def)

lemma fuel_ok_all: "fuel_ok n"
proof (induction n)
  case 0
  show ?case by (simp add: fuel_ok_def)
next
  case (Suc n)
  from Suc have
    ihV: "\<And>cs. 2 * length cs < n \<Longrightarrow> value_p n cs \<noteq> OutOfFuel" and
    ihVL: "\<And>cs v r. 2 * length cs < n \<Longrightarrow> value_p n cs = Parsed v r \<Longrightarrow> length r < length cs" and
    ihE: "\<And>cs acc. 2 * length cs + 1 < n \<Longrightarrow> elements_p n cs acc \<noteq> OutOfFuel" and
    ihEL: "\<And>cs acc v r. 2 * length cs + 1 < n \<Longrightarrow> elements_p n cs acc = Parsed v r \<Longrightarrow> length r < length cs" and
    ihM: "\<And>cs acc. 2 * length cs + 1 < n \<Longrightarrow> members_p n cs acc \<noteq> OutOfFuel" and
    ihML: "\<And>cs acc v r. 2 * length cs + 1 < n \<Longrightarrow> members_p n cs acc = Parsed v r \<Longrightarrow> length r < length cs"
    unfolding fuel_ok_def by blast+
  have v: "value_p (Suc n) cs \<noteq> OutOfFuel \<and> (\<forall>v r. value_p (Suc n) cs = Parsed v r \<longrightarrow> length r < length cs)"
    if b: "2 * length cs < Suc n" for cs
  proof (cases "skip_ws cs")
    case Nil
    then show ?thesis by simp
  next
    case (Cons c r)
    note l = skip_ws_Cons [OF Cons]
    have sub: "2 * length r + 1 < n" using l b by linarith
    have el: "length ra < length cs" if "elements_p n r acc = Parsed v ra" for acc v ra
      using ihEL [OF sub that] l by linarith
    have ml: "length ra < length cs" if "members_p n r acc = Parsed v ra" for acc v ra
      using ihML [OF sub that] l by linarith
    have sl: "length ra < length cs" if "string_chars r [] = Parsed s ra" for s ra
      using string_chars_shorter [OF that] l by linarith
    have nl: "length ra < length cs" if "number_p (c # r) = Parsed v ra" for v ra
      using number_p_shorter [OF that] l by simp
    have ll: "length ra < length cs" if "literal_p (c # r) = Parsed v ra" for v ra
      using literal_p_shorter [OF that] l by simp
    have sk: "length r' < length cs" if "skip_ws r = c' # r'" for c' r'
      using skip_ws_Cons [OF that] l by linarith
    have step: "value_p (Suc n) cs =
          (if c = 0x5B then
            (case skip_ws r of
               [] \<Rightarrow> SyntaxError
             | c' # r' \<Rightarrow> if c' = 0x5D then Parsed (JSArray []) r' else elements_p n r [])
          else if c = 0x7B then
            (case skip_ws r of
               [] \<Rightarrow> SyntaxError
             | c' # r' \<Rightarrow> if c' = 0x7D then Parsed (JSObject []) r' else members_p n r [])
          else if c = 0x22 then
            (case string_chars r [] of
               Parsed s r' \<Rightarrow> Parsed (JSString s) r'
             | SyntaxError \<Rightarrow> SyntaxError
             | OutOfFuel \<Rightarrow> OutOfFuel)
          else if c = 0x2D \<or> is_digit c then number_p (c # r)
          else literal_p (c # r))"
      using Cons by simp
    consider (arr) "c = 0x5B" | (obj) "c \<noteq> 0x5B" "c = 0x7B" | (str) "c \<noteq> 0x5B" "c \<noteq> 0x7B" "c = 0x22"
      | (num) "c \<noteq> 0x5B" "c \<noteq> 0x7B" "c \<noteq> 0x22" "c = 0x2D \<or> is_digit c"
      | (lit) "c \<noteq> 0x5B" "c \<noteq> 0x7B" "c \<noteq> 0x22" "\<not> (c = 0x2D \<or> is_digit c)"
      by blast
    then show ?thesis
    proof cases
      case arr
      then have "value_p (Suc n) cs = (case skip_ws r of
               [] \<Rightarrow> SyntaxError
             | c' # r' \<Rightarrow> if c' = 0x5D then Parsed (JSArray []) r' else elements_p n r [])"
        using step by simp
      then show ?thesis
        using ihE [OF sub, of "[]"] el [of "[]"] sk by (auto split: list.splits if_splits)
    next
      case obj
      then have "value_p (Suc n) cs = (case skip_ws r of
               [] \<Rightarrow> SyntaxError
             | c' # r' \<Rightarrow> if c' = 0x7D then Parsed (JSObject []) r' else members_p n r [])"
        using step by simp
      then show ?thesis
        using ihM [OF sub, of "[]"] ml [of "[]"] sk by (auto split: list.splits if_splits)
    next
      case str
      then have "value_p (Suc n) cs = (case string_chars r [] of
               Parsed s r' \<Rightarrow> Parsed (JSString s) r'
             | SyntaxError \<Rightarrow> SyntaxError
             | OutOfFuel \<Rightarrow> OutOfFuel)"
        using step by simp
      then show ?thesis
        using string_chars_fuel [of r "[]"] sl by (auto split: parsed.splits)
    next
      case num
      then have "value_p (Suc n) cs = number_p (c # r)"
        using step by simp
      then show ?thesis
        using number_p_fuel [of "c # r"] nl by auto
    next
      case lit
      then have "value_p (Suc n) cs = literal_p (c # r)"
        using step by simp
      then show ?thesis
        using literal_p_fuel [of "c # r"] ll by auto
    qed
  qed
  have e: "elements_p (Suc n) cs acc \<noteq> OutOfFuel
           \<and> (\<forall>v r. elements_p (Suc n) cs acc = Parsed v r \<longrightarrow> length r < length cs)"
    if b: "2 * length cs + 1 < Suc n" for cs acc
  proof (cases "value_p n cs")
    case (Parsed v r)
    have b0: "2 * length cs < n" using b by linarith
    note l = ihVL [OF b0 Parsed]
    show ?thesis
    proof (cases "skip_ws r")
      case Nil
      with Parsed show ?thesis by simp
    next
      case (Cons c r')
      note l' = skip_ws_Cons [OF Cons]
      have sub: "2 * length r' + 1 < n" using l l' b by linarith
      show ?thesis
        using Parsed Cons l l' ihE [OF sub, of "v # acc"] ihEL [OF sub, of "v # acc"]
        by auto
    qed
  next
    case SyntaxError
    then show ?thesis by simp
  next
    case OutOfFuel
    with ihV [of cs] b show ?thesis by simp
  qed
  have m: "members_p (Suc n) cs acc \<noteq> OutOfFuel
           \<and> (\<forall>v r. members_p (Suc n) cs acc = Parsed v r \<longrightarrow> length r < length cs)"
    if b: "2 * length cs + 1 < Suc n" for cs acc
  proof (cases "skip_ws cs")
    case Nil
    then show ?thesis by simp
  next
    case (Cons q r)
    note l0 = skip_ws_Cons [OF Cons]
    show ?thesis
    proof (cases "string_chars r []")
      case (Parsed k r1)
      note l1 = string_chars_shorter [OF Parsed]
      show ?thesis
      proof (cases "skip_ws r1")
        case Nil
        with Cons Parsed show ?thesis by simp
      next
        case c2: (Cons col r2)
        note l2 = skip_ws_Cons [OF c2]
        have b2: "2 * length r2 < n" using l0 l1 l2 b by linarith
        show ?thesis
        proof (cases "value_p n r2")
          case p3: (Parsed v r3)
          note l3 = ihVL [OF b2 p3]
          show ?thesis
          proof (cases "skip_ws r3")
            case Nil
            with Cons Parsed c2 p3 show ?thesis by simp
          next
            case c4: (Cons c r4)
            note l4 = skip_ws_Cons [OF c4]
            have sub: "2 * length r4 + 1 < n" using l0 l1 l2 l3 l4 b by linarith
            show ?thesis
              using Cons Parsed c2 p3 c4 l0 l1 l2 l3 l4
                ihM [OF sub, of "(k, v) # acc"] ihML [OF sub, of "(k, v) # acc"]
              by auto
          qed
        next
          case SyntaxError
          with Cons Parsed c2 show ?thesis by simp
        next
          case OutOfFuel
          with ihV [OF b2] show ?thesis by simp
        qed
      qed
    next
      case SyntaxError
      with Cons show ?thesis by simp
    next
      case OutOfFuel
      with string_chars_fuel show ?thesis by blast
    qed
  qed
  show ?case
    unfolding fuel_ok_def using v e m by blast
qed

lemma json_parse_fuel: "value_p (2 * length s + 2) s \<noteq> OutOfFuel"
  using fuel_ok_all [of "2 * length s + 2"] unfolding fuel_ok_def by simp


section \<open>Properties of the keyword recovery parser\<close>

























lemma parseKeywords_number: "parseKeywords (PText (js ''5'')) = JSNumber (js ''5'')"
  by code_simp

section \<open>Properties of the freshness gate\<close>













lemma store_keywords_ok:
  "\<forall>s. db_error e s = None \<Longrightarrow> fst (store_keywords e asin ks w) = None"
  by (induction ks arbitrary: w) auto

lemma execute_insert_history_created:
  "execute_insert_history e asin n ''created'' f w =
     (case db_error e (InsertHistory asin n ''created'') of
        Some message \<Rightarrow> Inl message
      | None \<Rightarrow> Inr (insert_history (now e) asin n ''created'' f w))"
  by (simp add: execute_insert_history_def action_type_enum_def)

lemma store_generated_unfold:
  "store_generated e asin product optimizationResult w1 =
     (let scoreResult = calculateOptimizationScore (r_original optimizationResult)
                          (r_optimized optimizationResult)
      in case db_error e (InsertOptimization asin) of
           Some message \<Rightarrow> (optimize_catch message, w1)
         | None \<Rightarrow>
             (let insertId = next_optimization_id w1;
                  w2 = insert_optimization (now e) product asin optimizationResult scoreResult w1
              in case db_error e (InsertHistory asin insertId ''created'') of
                   Some message \<Rightarrow> (optimize_catch message, w2)
                 | None \<Rightarrow>
                     (let w3 = insert_history (now e) asin insertId ''created'' None w2
                      in case store_keywords e asin (result_keywords optimizationResult) w3 of
                           (Some message, w4) \<Rightarrow> (optimize_catch message, w4)
                         | (None, w4) \<Rightarrow>
                             (Json (fresh_optimize_body asin optimizationResult scoreResult), w4))))"
  by (simp add: store_generated_def execute_insert_history_created Let_def split: option.split)



lemma store_generated_fresh:
  assumes "\<forall>s. db_error e s = None"
  shows "\<exists>body. fst (store_generated e asin p r w) = Json body \<and> ob_source body = ''fresh''"
proof -
  define w3 where "w3 = insert_history (now e) asin (next_optimization_id w) ''created'' None
        (insert_optimization (now e) p asin r
           (calculateOptimizationScore (r_original r) (r_optimized r)) w)"
  obtain m w4 where k: "store_keywords e asin (result_keywords r) w3 = (m, w4)"
    by (cases "store_keywords e asin (result_keywords r) w3")
  from store_keywords_ok [OF assms, of asin "result_keywords r" w3] k have "m = None" by simp
  with assms k show ?thesis
    by (simp add: store_generated_unfold Let_def w3_def fresh_optimize_body_def)
qed


lemma generate_and_store_fresh:
  assumes "\<forall>s. db_error e s = None"
    and "ai e \<lparr> pi_asin = p_asin p, pi_title = l_title (p_listing p),
                 pi_bulletPoints = l_bulletPoints (p_listing p),
                 pi_description = l_description (p_listing p) \<rparr> = Inr g"
  shows "\<exists>body. fst (generate_and_store e asin p w) = Json body \<and> ob_source body = ''fresh''"
  using assms(2) store_generated_fresh [OF assms(1)]
  by (simp add: generate_and_store_def optimizeProduct_def Let_def)








section \<open>Properties of the optimize route under a keyword failure\<close>









section \<open>Properties of the feedback route\<close>












section \<open>Properties of batch optimization\<close>

text \<open>What the loop adds to its three accumulators from iteration \<open>i\<close> on.\<close>

lemma batch_loop_lengths:
  "i \<le> length prods \<Longrightarrow>
   length (fst (batch_loop envs d prods i (results, errors, trace)))
     + length (fst (snd (batch_loop envs d prods i (results, errors, trace))))
   = length results + length errors + (length prods - i)"
proof (induction envs d prods i "(results, errors, trace)"
    arbitrary: results errors trace rule: batch_loop.induct)
  case (1 envs d prods i results errors trace)
  show ?case
  proof (cases "i < length prods")
    case False
    with "1.prems" show ?thesis by simp
  next
    case True
    show ?thesis
    proof (cases "optimizeProduct (envs i) (prods ! i)")
      case (Inl message)
      from True have "i + 1 \<le> length prods" by simp
      from "1.hyps"(1) [OF True Inl this] True Inl show ?thesis
        by (simp del: batch_loop.simps add: batch_loop.simps [of envs d prods i])
    next
      case (Inr result)
      from True have "i + 1 \<le> length prods" by simp
      from "1.hyps"(2) [OF True Inr this] True Inr show ?thesis
        by (simp del: batch_loop.simps add: batch_loop.simps [of envs d prods i])
    qed
  qed
qed

lemma batch_loop_partition:
  "map r_asin (fst (batch_loop envs d prods i (results, errors, trace)))
     = map r_asin results
       @ map (\<lambda>j. pi_asin (prods ! j))
           (filter (\<lambda>j. isl (optimizeProduct (envs j) (prods ! j)) = False) [i..<length prods])
   \<and> map er_asin (fst (snd (batch_loop envs d prods i (results, errors, trace))))
     = map er_asin errors
       @ map (\<lambda>j. pi_asin (prods ! j))
           (filter (\<lambda>j. isl (optimizeProduct (envs j) (prods ! j))) [i..<length prods])"
proof (induction envs d prods i "(results, errors, trace)"
    arbitrary: results errors trace rule: batch_loop.induct)
  case (1 envs d prods i results errors trace)
  show ?case
  proof (cases "i < length prods")
    case False
    then show ?thesis by simp
  next
    case True
    then have upt: "[i..<length prods] = i # [i + 1..<length prods]"
      by (simp add: upt_conv_Cons)
    show ?thesis
    proof (cases "optimizeProduct (envs i) (prods ! i)")
      case (Inl message)
      from "1.hyps"(1) [OF True Inl] True Inl show ?thesis
        unfolding upt
        by (simp del: batch_loop.simps upt_Suc add: batch_loop.simps [of envs d prods i])
    next
      case (Inr result)
      then have "r_asin result = pi_asin (prods ! i)"
        by (auto simp: optimizeProduct_def split: sum.splits)
      with "1.hyps"(2) [OF True Inr] True Inr show ?thesis
        unfolding upt
        by (simp del: batch_loop.simps upt_Suc add: batch_loop.simps [of envs d prods i])
    qed
  qed
qed

lemma optimizeMultipleProducts_counts:
  "summary_total (fst (optimizeMultipleProducts envs prods opt)) = length prods
   \<and> summary_successful (fst (optimizeMultipleProducts envs prods opt))
       = length (successful (fst (optimizeMultipleProducts envs prods opt)))
   \<and> summary_failed (fst (optimizeMultipleProducts envs prods opt))
       = length (failed (fst (optimizeMultipleProducts envs prods opt)))
   \<and> length (successful (fst (optimizeMultipleProducts envs prods opt)))
       + length (failed (fst (optimizeMultipleProducts envs prods opt))) = length prods"
  using batch_loop_lengths [of 0 prods envs _ "[]" "[]" "[]"]
  by (simp add: optimizeMultipleProducts_def Let_def)

lemma optimizeMultipleProducts_partition:
  "map r_asin (successful (fst (optimizeMultipleProducts envs prods opt)))
     = map (\<lambda>j. pi_asin (prods ! j))
         (filter (\<lambda>j. isl (optimizeProduct (envs j) (prods ! j)) = False) [0..<length prods])
   \<and> map er_asin (failed (fst (optimizeMultipleProducts envs prods opt)))
     = map (\<lambda>j. pi_asin (prods ! j))
         (filter (\<lambda>j. isl (optimizeProduct (envs j) (prods ! j))) [0..<length prods])"
  using batch_loop_partition [of envs _ prods 0 "[]" "[]" "[]"]
  by (simp add: optimizeMultipleProducts_def Let_def)

lemma ex_envs_failing_isl: "isl (optimizeProduct (ex_envs_failing bad j) p) \<longleftrightarrow> j \<in> set bad"
  by (simp add: optimizeProduct_def ex_envs_failing_def ex_env_def)

lemma five_with_one_failure:
  fixes prods :: "product_input list"
  assumes "length prods = 5"
  shows "summary_successful (fst (optimizeMultipleProducts (ex_envs_failing [2]) prods None)) = 4
   \<and> summary_failed (fst (optimizeMultipleProducts (ex_envs_failing [2]) prods None)) = 1
   \<and> map er_asin (failed (fst (optimizeMultipleProducts (ex_envs_failing [2]) prods None)))
       = [pi_asin (prods ! 2)]"
proof -
  let ?r = "fst (optimizeMultipleProducts (ex_envs_failing [2]) prods None)"
  have f: "filter (\<lambda>j. j \<in> set [2::nat]) [0..<5] = [2]"
    by (simp add: upt_conv_Cons)
  have "map er_asin (failed ?r) = [pi_asin (prods ! 2)]"
    using optimizeMultipleProducts_partition [of "ex_envs_failing [2]" prods None] assms f
    by (simp add: ex_envs_failing_isl del: set_simps)
  moreover from this have "length (failed ?r) = 1"
    by (metis length_map length_Cons list.size(3) One_nat_def)
  moreover have "length (successful ?r) + length (failed ?r) = 5"
    using optimizeMultipleProducts_counts [of "ex_envs_failing [2]" prods None] assms by simp
  ultimately show ?thesis
    using optimizeMultipleProducts_counts [of "ex_envs_failing [2]" prods None] by simp
qed

text \<open>
  C6 fails on the code's failure path. The loop's wait stands inside the \<open>try\<close> block
  after the call, so a record whose generation fails is followed by no wait: with two
  records of which the first fails, the second call follows the first directly. With both
  succeeding the wait of 5000 ms is there.
\<close>

theorem batch_no_delay_after_failure:
  "snd (optimizeMultipleProducts (ex_envs_failing [0])
          [ex_input ''B000000001'', ex_input ''B000000002''] None)
     = [OptimizeCall (js ''B000000001''), OptimizeCall (js ''B000000002'')]
   \<and> \<not> delay_between_calls (snd (optimizeMultipleProducts (ex_envs_failing [0])
          [ex_input ''B000000001'', ex_input ''B000000002''] None))
   \<and> snd (optimizeMultipleProducts (ex_envs_failing [])
          [ex_input ''B000000001'', ex_input ''B000000002''] None)
     = [OptimizeCall (js ''B000000001''), Wait 5000, OptimizeCall (js ''B000000002'')]"
  by code_simp

section \<open>Properties of the rate-limit gate\<close>

lemma promise_all_calls_dispatched:
  assumes "minRequestInterval \<le> t0 - lastRequestTime eng"
  shows "ls_dispatched (promise_all_calls t0 eng) =
     [(OptimizeTitle, t0), (OptimizeBulletPoints, t0 + 1000),
      (OptimizeDescription, t0 + 1000), (GenerateKeywords, t0 + 1000)]"
  using assms
  by (simp add: promise_all_calls_def start_call_def fire_timer_def rateLimitCheck_wait_def
      rateLimitCheck_finish_def minRequestInterval_def Let_def)

text \<open>
  C8 fails on the code. The first of the four calls finds the interval elapsed and stamps
  the engine at \<open>t0\<close>; each of the other three then reads that same stamp before any of
  them has written its own, computes the same wait, and all three dispatch together one
  interval later: three dispatches 0 ms apart.
\<close>

theorem promise_all_breaks_min_interval:
  "map snd (ls_dispatched (promise_all_calls 1762000000000 new_engine))
     = [1762000000000, 1762000001000, 1762000001000, 1762000001000]
   \<and> \<not> min_interval_kept (map snd (ls_dispatched (promise_all_calls 1762000000000 new_engine)))"
  by (simp add: promise_all_calls_dispatched new_engine_def minRequestInterval_def)

end
